theory Spec2Isabelle
  imports Main
begin

section \<open>Strings\<close>

text \<open>
  JavaScript strings are modelled as \<^typ>\<open>string\<close>. The string methods the handlers of
  \<^verbatim>\<open>src/index.ts\<close> call are written out for the ASCII range: \<^verbatim>\<open>toLowerCase\<close> maps
  \<^verbatim>\<open>A..Z\<close> to \<^verbatim>\<open>a..z\<close>, \<^verbatim>\<open>trim\<close> strips the ASCII white space, \<^verbatim>\<open>includes\<close> is the
  substring test, \<^verbatim>\<open>split(',')\<close> cuts at every comma and a number in a template literal
  is printed in decimal.
\<close>

definition toLowerCase :: "string \<Rightarrow> string" where
  "toLowerCase s =
     map (\<lambda>c. let n = (of_char c :: nat) in if 65 \<le> n \<and> n \<le> 90 then char_of (n + 32) else c) s"

definition startsWith :: "string \<Rightarrow> string \<Rightarrow> bool" where
  "startsWith s t = (take (length t) s = t)"

fun includes_str :: "string \<Rightarrow> string \<Rightarrow> bool" where
  "includes_str [] t = (t = [])"
| "includes_str (c # cs) t = (startsWith (c # cs) t \<or> includes_str cs t)"

fun split :: "char \<Rightarrow> string \<Rightarrow> string list" where
  "split sep [] = [[]]"
| "split sep (c # cs) =
     (if c = sep then [] # split sep cs
      else (case split sep cs of [] \<Rightarrow> [[c]] | w # ws \<Rightarrow> (c # w) # ws))"

definition isSpace :: "char \<Rightarrow> bool" where
  "isSpace c = (let n = (of_char c :: nat) in n = 32 \<or> (9 \<le> n \<and> n \<le> 13))"

definition trim :: "string \<Rightarrow> string" where
  "trim s = rev (dropWhile isSpace (rev (dropWhile isSpace s)))"

definition digit :: "nat \<Rightarrow> char" where
  "digit d = ''0123456789'' ! d"

fun string_of_nat :: "nat \<Rightarrow> string" where
  "string_of_nat n =
     (if n < 10 then [digit n] else string_of_nat (n div 10) @ [digit (n mod 10)])"

declare string_of_nat.simps [simp del]

text \<open>Reading a decimal string back, used to show that printing loses nothing.\<close>

definition digit_value :: "char \<Rightarrow> nat" where
  "digit_value c = of_char c - 48"

definition nat_of_string :: "string \<Rightarrow> nat" where
  "nat_of_string s = foldl (\<lambda>acc c. 10 * acc + digit_value c) 0 s"

section \<open>The data model\<close>

text \<open>
  \<^verbatim>\<open>documents\<close> is declared \<^verbatim>\<open>any[]\<close>; the records below give every object the shape
  the upload handler builds. A form field the request left out is \<^verbatim>\<open>undefined\<close>, here
  \<^const>\<open>None\<close>. The field \<^verbatim>\<open>id\<close> is \<open>doc_id\<close> and the \<^verbatim>\<open>version\<close> of a history entry is
  \<open>entry_version\<close>, the source's names being taken. The entry of the upload handler has
  the two keys \<^verbatim>\<open>user\<close> and \<^verbatim>\<open>changes\<close> only; the update handler writes all four.
\<close>

record history_entry =
  entry_version :: "nat option"
  date :: "string option"
  user :: string
  changes :: string

record document =
  doc_id :: string
  title :: "string option"
  description :: "string option"
  category :: "string option"
  department :: "string option"
  confidentiality :: "string option"
  tags :: "string list"
  fileName :: string
  originalName :: string
  filePath :: string
  fileSize :: nat
  fileType :: string
  uploadDate :: string
  status :: string
  version :: nat
  uploadedBy :: string
  history :: "history_entry list"

text \<open>\<^verbatim>\<open>req.file\<close> as multer hands it to the handler (its \<^verbatim>\<open>size\<close> is \<open>size_f\<close>), and the
  text fields of the form.\<close>

record upload_file =
  filename :: string
  originalname :: string
  size_f :: nat
  mimetype :: string

record form =
  title_f :: "string option"
  description_f :: "string option"
  category_f :: "string option"
  department_f :: "string option"
  confidentiality_f :: "string option"
  tags_f :: "string option"

text \<open>
  What a handler answers when it does not answer with its result: status 400 and 404 with
  their message, and a \<^verbatim>\<open>TypeError\<close> thrown in the handler (by a method call on
  \<^verbatim>\<open>undefined\<close>, or by \<^verbatim>\<open>fs.unlink\<close> on a path it refuses), which leaves the handler and
  becomes the framework's status 500.
\<close>

datatype error = BadRequest string | NotFound string | TypeError

text \<open>A string in a condition is true when it is there and not empty.\<close>

definition truthy :: "string option \<Rightarrow> bool" where
  "truthy v = (case v of None \<Rightarrow> False | Some s \<Rightarrow> s \<noteq> [])"

section \<open>Uploading a document\<close>

text \<open>
  The name multer stores the file under (\<^verbatim>\<open>`${Date.now()}-${file.originalname}`\<close>), and the
  handler of \<^verbatim>\<open>POST /api/documents\<close>. The handler reads the clock twice: \<open>now\<close> is
  \<^verbatim>\<open>Date.now()\<close> in milliseconds and \<open>stamp\<close> is \<^verbatim>\<open>new Date().toISOString()\<close>. It returns
  its answer and the new value of \<^verbatim>\<open>documents\<close>.
\<close>

definition storage_filename :: "nat \<Rightarrow> string \<Rightarrow> string" where
  "storage_filename now name = string_of_nat now @ ''-'' @ name"

definition new_id :: "nat \<Rightarrow> string" where
  "new_id now = ''DOC-'' @ string_of_nat now"

definition newDocument :: "upload_file \<Rightarrow> form \<Rightarrow> nat \<Rightarrow> string \<Rightarrow> document" where
  "newDocument file body now stamp =
     \<lparr> doc_id = new_id now,
       title = title_f body,
       description = description_f body,
       category = category_f body,
       department = department_f body,
       confidentiality = confidentiality_f body,
       tags = (if truthy (tags_f body) then map trim (split CHR '','' (the (tags_f body))) else []),
       fileName = filename file,
       originalName = originalname file,
       filePath = ''/uploads/'' @ filename file,
       fileSize = size_f file,
       fileType = mimetype file,
       uploadDate = stamp,
       status = ''pending'',
       version = 1,
       uploadedBy = ''Ahmed Mohamud'',
       history = [\<lparr> entry_version = None, date = None,
                    user = ''Ahmed Mohamud'', changes = ''Initial upload'' \<rparr>] \<rparr>"

definition post_document ::
  "upload_file option \<Rightarrow> form \<Rightarrow> nat \<Rightarrow> string \<Rightarrow> document list
     \<Rightarrow> (error + document) \<times> document list" where
  "post_document file body now stamp documents =
     (case file of
        None \<Rightarrow> (Inl (BadRequest ''No file uploaded.''), documents)
      | Some f \<Rightarrow>
          (let d = newDocument f body now stamp in (Inr d, documents @ [d])))"

section \<open>Looking a document up\<close>

text \<open>
  \<^verbatim>\<open>documents.findIndex(p)\<close> gives the first index whose element satisfies \<open>p\<close>; the
  source's \<^verbatim>\<open>-1\<close> is \<^const>\<open>None\<close>. \<^verbatim>\<open>documents.find(p)\<close> is \<^const>\<open>find\<close>.
\<close>

fun findIndex :: "('a \<Rightarrow> bool) \<Rightarrow> 'a list \<Rightarrow> nat option" where
  "findIndex p [] = None"
| "findIndex p (x # xs) = (if p x then Some 0 else map_option Suc (findIndex p xs))"


section \<open>Deleting a document\<close>


section \<open>Updating a document\<close>

text \<open>
  The body of \<^verbatim>\<open>PUT /api/documents/:id\<close> is any JSON object. The model takes the bodies
  whose keys are keys of a document and whose values have the type the upload handler
  stores under that key: a key the body does not have is \<^const>\<open>None\<close>. \<open>spread\<close> is
  \<^verbatim>\<open>{...originalDocument, ...req.body}\<close>: every key of the body replaces the document's.
  \<^verbatim>\<open>version\<close> and \<^verbatim>\<open>history\<close> are written after the spread, so they replace what the
  body gave. \<open>stamp\<close> is \<^verbatim>\<open>new Date().toISOString()\<close>.

  \<^verbatim>\<open>version\<close> is a JavaScript number. An array holds fewer than \<open>2 ^ 32\<close> elements and the
  history grows by one with every update, so the version stays far below \<open>2 ^ 53\<close>, where
  \<^verbatim>\<open>+ 1\<close> is exact: it is a \<^typ>\<open>nat\<close> here.
\<close>

record update_body =
  id_b :: "string option"
  title_b :: "string option"
  description_b :: "string option"
  category_b :: "string option"
  department_b :: "string option"
  confidentiality_b :: "string option"
  tags_b :: "string list option"
  fileName_b :: "string option"
  originalName_b :: "string option"
  filePath_b :: "string option"
  fileSize_b :: "nat option"
  fileType_b :: "string option"
  uploadDate_b :: "string option"
  status_b :: "string option"
  version_b :: "nat option"
  uploadedBy_b :: "string option"
  history_b :: "history_entry list option"

definition over :: "'a \<Rightarrow> 'a option \<Rightarrow> 'a" where
  "over old new = (case new of None \<Rightarrow> old | Some v \<Rightarrow> v)"

definition over_opt :: "'a option \<Rightarrow> 'a option \<Rightarrow> 'a option" where
  "over_opt old new = (case new of None \<Rightarrow> old | Some v \<Rightarrow> Some v)"

definition spread :: "document \<Rightarrow> update_body \<Rightarrow> document" where
  "spread doc body =
     \<lparr> doc_id = over (doc_id doc) (id_b body),
       title = over_opt (title doc) (title_b body),
       description = over_opt (description doc) (description_b body),
       category = over_opt (category doc) (category_b body),
       department = over_opt (department doc) (department_b body),
       confidentiality = over_opt (confidentiality doc) (confidentiality_b body),
       tags = over (tags doc) (tags_b body),
       fileName = over (fileName doc) (fileName_b body),
       originalName = over (originalName doc) (originalName_b body),
       filePath = over (filePath doc) (filePath_b body),
       fileSize = over (fileSize doc) (fileSize_b body),
       fileType = over (fileType doc) (fileType_b body),
       uploadDate = over (uploadDate doc) (uploadDate_b body),
       status = over (status doc) (status_b body),
       version = over (version doc) (version_b body),
       uploadedBy = over (uploadedBy doc) (uploadedBy_b body),
       history = over (history doc) (history_b body) \<rparr>"

definition updatedDocument :: "document \<Rightarrow> update_body \<Rightarrow> string \<Rightarrow> document" where
  "updatedDocument originalDocument body stamp =
     (let newVersion = version originalDocument + 1 in
      (spread originalDocument body)
        \<lparr> version := newVersion,
          history :=
            \<lparr> entry_version = Some newVersion, date = Some stamp,
              user = ''Ahmed Mohamud'', changes = ''Metadata updated'' \<rparr>
            # history originalDocument \<rparr>)"

definition put_document ::
  "string \<Rightarrow> update_body \<Rightarrow> string \<Rightarrow> document list \<Rightarrow> (error + document) \<times> document list" where
  "put_document rid body stamp documents =
     (case findIndex (\<lambda>doc. doc_id doc = rid) documents of
        None \<Rightarrow> (Inl (NotFound ''Document not found.''), documents)
      | Some documentIndex \<Rightarrow>
          (let updated = updatedDocument (documents ! documentIndex) body stamp
           in (Inr updated, documents[documentIndex := updated])))"

section \<open>Updating the status\<close>

text \<open>
  \<^verbatim>\<open>PATCH /api/documents/:id/status\<close> reads \<^verbatim>\<open>status\<close> from a JSON body and tests it before
  it stores it, so the value is any JSON value, or \<^verbatim>\<open>undefined\<close> when the body has no such
  key. \<^verbatim>\<open>['approved', 'rejected'].includes(status)\<close> holds for these two strings only. After
  the test the value is a string; the other branch of \<open>string_of\<close> is never reached.
\<close>

datatype json =
  JUndefined | JNull | JBool bool | JNum int | JString string
  | JArray "json list" | JObject "(string \<times> json) list"

fun string_of :: "json \<Rightarrow> string" where
  "string_of (JString s) = s"
| "string_of _ = []"

definition patch_status ::
  "string \<Rightarrow> json \<Rightarrow> document list \<Rightarrow> (error + document) \<times> document list" where
  "patch_status rid st documents =
     (if st \<notin> set [JString ''approved'', JString ''rejected'']
      then (Inl (BadRequest ''Invalid status.''), documents)
      else
        (case findIndex (\<lambda>doc. doc_id doc = rid) documents of
           None \<Rightarrow> (Inl (NotFound ''Document not found.''), documents)
         | Some documentIndex \<Rightarrow>
             (let changed = (documents ! documentIndex)\<lparr> status := string_of st \<rparr>
              in (Inr changed, documents[documentIndex := changed]))))"

section \<open>Listing documents\<close>

text \<open>
  The query parameters of \<^verbatim>\<open>GET /api/documents\<close> are strings; one the request does not
  carry is \<^const>\<open>None\<close>, and an empty one is skipped by the handler's \<^verbatim>\<open>if\<close> like a missing
  one. Their names carry \<open>_p\<close>, the source's names being fields of a document.

  \<open>parse\<close> is the time value of \<^verbatim>\<open>new Date(s)\<close> in milliseconds, \<^const>\<open>None\<close> for an
  invalid date: it is the language's, so the handlers take it as a parameter. A comparison
  with an invalid date is false.

  The free-text test calls \<^verbatim>\<open>toLowerCase\<close> on \<^verbatim>\<open>doc.title\<close> and, when the title does not
  match, on \<^verbatim>\<open>doc.description\<close>: on \<^verbatim>\<open>undefined\<close> the call throws. \<^verbatim>\<open>filter\<close> stops at
  the first exception its callback throws.
\<close>

record query =
  q_p :: "string option"
  category_p :: "string option"
  department_p :: "string option"
  status_p :: "string option"
  confidentiality_p :: "string option"
  dateFrom_p :: "string option"
  dateTo_p :: "string option"

definition matches_q :: "string \<Rightarrow> document \<Rightarrow> error + bool" where
  "matches_q searchTerm doc =
     (case title doc of
        None \<Rightarrow> Inl TypeError
      | Some t \<Rightarrow>
          if includes_str (toLowerCase t) searchTerm then Inr True
          else
            (case description doc of
               None \<Rightarrow> Inl TypeError
             | Some ds \<Rightarrow>
                 if includes_str (toLowerCase ds) searchTerm then Inr True
                 else Inr (list_ex (\<lambda>tag. includes_str (toLowerCase tag) searchTerm) (tags doc))))"

fun filter_throwing :: "('a \<Rightarrow> error + bool) \<Rightarrow> 'a list \<Rightarrow> error + 'a list" where
  "filter_throwing p [] = Inr []"
| "filter_throwing p (x # xs) =
     (case p x of
        Inl e \<Rightarrow> Inl e
      | Inr keep \<Rightarrow>
          (case filter_throwing p xs of
             Inl e \<Rightarrow> Inl e
           | Inr ys \<Rightarrow> Inr (if keep then x # ys else ys)))"

definition date_ge :: "(string \<Rightarrow> int option) \<Rightarrow> string \<Rightarrow> string \<Rightarrow> bool" where
  "date_ge parse a b = (case (parse a, parse b) of (Some x, Some y) \<Rightarrow> x \<ge> y | _ \<Rightarrow> False)"

definition date_le :: "(string \<Rightarrow> int option) \<Rightarrow> string \<Rightarrow> string \<Rightarrow> bool" where
  "date_le parse a b = (case (parse a, parse b) of (Some x, Some y) \<Rightarrow> x \<le> y | _ \<Rightarrow> False)"

definition list_documents ::
  "(string \<Rightarrow> int option) \<Rightarrow> query \<Rightarrow> document list \<Rightarrow> error + document list" where
  "list_documents parse qry documents =
     (case (if truthy (q_p qry)
            then filter_throwing (matches_q (toLowerCase (the (q_p qry)))) documents
            else Inr documents) of
        Inl e \<Rightarrow> Inl e
      | Inr f1 \<Rightarrow>
          (let f2 = (if truthy (category_p qry)
                     then filter (\<lambda>doc. category doc = category_p qry) f1 else f1);
               f3 = (if truthy (department_p qry)
                     then filter (\<lambda>doc. department doc = department_p qry) f2 else f2);
               f4 = (if truthy (status_p qry)
                     then filter (\<lambda>doc. Some (status doc) = status_p qry) f3 else f3);
               f5 = (if truthy (confidentiality_p qry)
                     then filter (\<lambda>doc. confidentiality doc = confidentiality_p qry) f4 else f4);
               f6 = (if truthy (dateFrom_p qry)
                     then filter (\<lambda>doc. date_ge parse (uploadDate doc) (the (dateFrom_p qry))) f5
                     else f5);
               f7 = (if truthy (dateTo_p qry)
                     then filter (\<lambda>doc. date_le parse (uploadDate doc) (the (dateTo_p qry))) f6
                     else f6)
           in Inr f7))"

section \<open>Statistics\<close>

text \<open>
  \<^verbatim>\<open>GET /api/stats\<close> adds the file sizes up and answers with the sum in units of
  \<open>1024 * 1024\<close> bytes, printed by \<^verbatim>\<open>toFixed(2)\<close> and followed by \<^verbatim>\<open>MB\<close>; the sum itself is
  not part of the answer.

  The numbers are doubles. Whole numbers below \<open>2 ^ 53\<close> are doubles and their sum, when it
  is below \<open>2 ^ 53\<close> too, is the double the addition gives; a division by 1024 is exact; and
  the quotient is far below \<open>10 ^ 21\<close>, where \<^verbatim>\<open>toFixed(2)\<close> prints the nearest number with
  two decimals in fixed notation, the larger one on a tie. From \<open>2 ^ 53\<close> on the additions
  round, and from \<open>10 ^ 21\<close> on \<^verbatim>\<open>toFixed\<close> prints an exponent: the model does not follow
  the arithmetic there, and \<^const>\<open>None\<close> stands for a number or a string it does not give.
  \<open>add_number\<close> is the \<^verbatim>\<open>+\<close> of the handler's \<^verbatim>\<open>reduce\<close> and \<open>toFixed2_MB bytes\<close> is
  \<^verbatim>\<open>(bytes / 1024 / 1024).toFixed(2)\<close>.
\<close>

record stats =
  totalDocuments :: nat
  pendingApprovals :: nat
  storageUsed :: "string option"
  activeUsers :: nat

definition add_number :: "nat option \<Rightarrow> nat \<Rightarrow> nat option" where
  "add_number acc n =
     (case acc of
        None \<Rightarrow> None
      | Some a \<Rightarrow> if a + n < 2 ^ 53 then Some (a + n) else None)"

definition toFixed2_MB :: "nat \<Rightarrow> string option" where
  "toFixed2_MB bytes =
     (if bytes < 2 ^ 53
      then (let n = (2 * (100 * bytes) + 1024 * 1024) div (2 * (1024 * 1024))
            in Some (string_of_nat (n div 100) @ ''.''
                     @ [digit (n mod 100 div 10), digit (n mod 10)]))
      else None)"

definition storageUsedInBytes :: "document list \<Rightarrow> nat option" where
  "storageUsedInBytes documents =
     foldl (\<lambda>acc doc. add_number acc (fileSize doc)) (Some 0) documents"

definition get_stats :: "document list \<Rightarrow> stats" where
  "get_stats documents =
     \<lparr> totalDocuments = length documents,
       pendingApprovals = length (filter (\<lambda>doc. status doc = ''pending'') documents),
       storageUsed =
         (case storageUsedInBytes documents of
            None \<Rightarrow> None
          | Some bytes \<Rightarrow> map_option (\<lambda>s. s @ '' MB'') (toFixed2_MB bytes)),
       activeUsers = 5 \<rparr>"

section \<open>Recent activities\<close>

text \<open>
  \<^verbatim>\<open>GET /api/activities\<close>: every history entry of every document, with the document's id
  and title added, sorted by the handler's compare function and cut to five.

  The compare function subtracts the time values of the two \<^verbatim>\<open>date\<close>s. An entry with no
  \<^verbatim>\<open>date\<close> gives \<^verbatim>\<open>new Date(undefined)\<close>, an invalid date, whose time value is \<^verbatim>\<open>NaN\<close>
  (\<^const>\<open>None\<close>), and so is the difference. \<^verbatim>\<open>Array.prototype.sort\<close> reads a \<^verbatim>\<open>NaN\<close> from
  the compare function as \<open>0\<close> and is stable; \<open>sort_by\<close> is the insertion sort with that
  reading, which places an element before the first one it does not compare greater than.
  Where the compare function is not a consistent order (an entry with no \<^verbatim>\<open>date\<close>
  compares equal to entries that differ from each other) the language leaves the order to
  the implementation; the insertion sort is one such order.
\<close>

record activity = history_entry +
  documentId :: string
  documentTitle :: "string option"

definition getTime :: "(string \<Rightarrow> int option) \<Rightarrow> string option \<Rightarrow> int option" where
  "getTime parse d = (case d of None \<Rightarrow> None | Some s \<Rightarrow> parse s)"

definition compare_dates ::
  "(string \<Rightarrow> int option) \<Rightarrow> activity \<Rightarrow> activity \<Rightarrow> int option" where
  "compare_dates parse a b =
     (case (getTime parse (date b), getTime parse (date a)) of
        (Some tb, Some ta) \<Rightarrow> Some (tb - ta)
      | _ \<Rightarrow> None)"

definition sort_compare :: "('a \<Rightarrow> 'a \<Rightarrow> int option) \<Rightarrow> 'a \<Rightarrow> 'a \<Rightarrow> int" where
  "sort_compare comparefn x y = (case comparefn x y of None \<Rightarrow> 0 | Some v \<Rightarrow> v)"

fun insert_by :: "('a \<Rightarrow> 'a \<Rightarrow> int option) \<Rightarrow> 'a \<Rightarrow> 'a list \<Rightarrow> 'a list" where
  "insert_by comparefn x [] = [x]"
| "insert_by comparefn x (y # ys) =
     (if sort_compare comparefn x y \<le> 0 then x # y # ys
      else y # insert_by comparefn x ys)"

definition sort_by :: "('a \<Rightarrow> 'a \<Rightarrow> int option) \<Rightarrow> 'a list \<Rightarrow> 'a list" where
  "sort_by comparefn xs = foldr (insert_by comparefn) xs []"

definition activities_of :: "document \<Rightarrow> activity list" where
  "activities_of doc =
     map (\<lambda>entry. \<lparr> entry_version = entry_version entry, date = date entry,
                    user = user entry, changes = changes entry,
                    documentId = doc_id doc, documentTitle = title doc \<rparr>)
       (history doc)"

definition allActivities :: "document list \<Rightarrow> activity list" where
  "allActivities documents = concat (map activities_of documents)"

definition get_activities :: "(string \<Rightarrow> int option) \<Rightarrow> document list \<Rightarrow> activity list" where
  "get_activities parse documents = take 5 (sort_by (compare_dates parse) (allActivities documents))"

section \<open>Vocabulary of the statements\<close>

text \<open>
  A run of update requests against the document at index \<open>i\<close>: each request is
  \<open>(id, body, stamp)\<close>, it must find the document at \<open>i\<close> (the update succeeds, and on
  that document), and the next one runs on the list the handler left.
\<close>

fun updates ::
  "nat \<Rightarrow> (string \<times> update_body \<times> string) list \<Rightarrow> document list \<Rightarrow> document list option" where
  "updates i [] documents = Some documents"
| "updates i ((rid, body, stamp) # rest) documents =
     (if findIndex (\<lambda>doc. doc_id doc = rid) documents = Some i
      then updates i rest (snd (put_document rid body stamp documents))
      else None)"

definition update_entry :: "nat \<Rightarrow> string \<Rightarrow> history_entry" where
  "update_entry v stamp =
     \<lparr> entry_version = Some v, date = Some stamp,
       user = ''Ahmed Mohamud'', changes = ''Metadata updated'' \<rparr>"

text \<open>The entries a run of updates writes on a document of version \<open>v\<close>, the last one first.\<close>

fun update_entries ::
  "nat \<Rightarrow> (string \<times> update_body \<times> string) list \<Rightarrow> history_entry list" where
  "update_entries v [] = []"
| "update_entries v ((rid, body, stamp) # rest) =
     update_entries (v + 1) rest @ [update_entry (v + 1) stamp]"

text \<open>The body \<^verbatim>\<open>{}\<close> and the query with no parameter.\<close>

definition no_changes :: update_body where
  "no_changes =
     \<lparr> id_b = None, title_b = None, description_b = None, category_b = None,
       department_b = None, confidentiality_b = None, tags_b = None, fileName_b = None,
       originalName_b = None, filePath_b = None, fileSize_b = None, fileType_b = None,
       uploadDate_b = None, status_b = None, version_b = None, uploadedBy_b = None,
       history_b = None \<rparr>"

definition no_criteria :: query where
  "no_criteria =
     \<lparr> q_p = None, category_p = None, department_p = None, status_p = None,
       confidentiality_p = None, dateFrom_p = None, dateTo_p = None \<rparr>"

text \<open>
  Two queries put together: each parameter is taken from the first query when it is
  present there and from the second otherwise. They name different criteria when no
  parameter is present in both.
\<close>

definition pick :: "string option \<Rightarrow> string option \<Rightarrow> string option" where
  "pick a b = (if truthy a then a else b)"

definition combine :: "query \<Rightarrow> query \<Rightarrow> query" where
  "combine a b =
     \<lparr> q_p = pick (q_p a) (q_p b),
       category_p = pick (category_p a) (category_p b),
       department_p = pick (department_p a) (department_p b),
       status_p = pick (status_p a) (status_p b),
       confidentiality_p = pick (confidentiality_p a) (confidentiality_p b),
       dateFrom_p = pick (dateFrom_p a) (dateFrom_p b),
       dateTo_p = pick (dateTo_p a) (dateTo_p b) \<rparr>"

definition both :: "string option \<Rightarrow> string option \<Rightarrow> bool" where
  "both a b = (truthy a \<and> truthy b)"

definition different_criteria :: "query \<Rightarrow> query \<Rightarrow> bool" where
  "different_criteria a b =
     (\<not> both (q_p a) (q_p b) \<and> \<not> both (category_p a) (category_p b)
      \<and> \<not> both (department_p a) (department_p b) \<and> \<not> both (status_p a) (status_p b)
      \<and> \<not> both (confidentiality_p a) (confidentiality_p b)
      \<and> \<not> both (dateFrom_p a) (dateFrom_p b) \<and> \<not> both (dateTo_p a) (dateTo_p b))"

text \<open>
  The documents that are in both of two answers, in the order of \<open>documents\<close>; there is
  no such list when one of the two requests failed.
\<close>

definition intersection ::
  "document list \<Rightarrow> error + document list \<Rightarrow> error + document list \<Rightarrow> error + document list" where
  "intersection documents r1 r2 =
     (case r1 of
        Inl e \<Rightarrow> Inl e
      | Inr xs \<Rightarrow>
          (case r2 of
             Inl e \<Rightarrow> Inl e
           | Inr ys \<Rightarrow> Inr (filter (\<lambda>doc. doc \<in> set xs \<and> doc \<in> set ys) documents)))"

text \<open>What the criteria other than the free text ask of a document.\<close>

definition pure_criteria :: "(string \<Rightarrow> int option) \<Rightarrow> query \<Rightarrow> document \<Rightarrow> bool" where
  "pure_criteria parse qry doc =
     ((truthy (category_p qry) \<longrightarrow> category doc = category_p qry)
      \<and> (truthy (department_p qry) \<longrightarrow> department doc = department_p qry)
      \<and> (truthy (status_p qry) \<longrightarrow> Some (status doc) = status_p qry)
      \<and> (truthy (confidentiality_p qry) \<longrightarrow> confidentiality doc = confidentiality_p qry)
      \<and> (truthy (dateFrom_p qry) \<longrightarrow> date_ge parse (uploadDate doc) (the (dateFrom_p qry)))
      \<and> (truthy (dateTo_p qry) \<longrightarrow> date_le parse (uploadDate doc) (the (dateTo_p qry))))"

definition free_text :: "query \<Rightarrow> document list \<Rightarrow> error + document list" where
  "free_text qry documents =
     (if truthy (q_p qry)
      then filter_throwing (matches_q (toLowerCase (the (q_p qry)))) documents
      else Inr documents)"

section \<open>A scenario\<close>

text \<open>
  Two uploads, of 1000 bytes in category \<^verbatim>\<open>finance\<close> and of 2000 bytes in category
  \<^verbatim>\<open>legal\<close>, one minute apart.
\<close>

definition fileA :: upload_file where
  "fileA = \<lparr> filename = storage_filename 1700000000000 ''budget.pdf'',
             originalname = ''budget.pdf'',
             size_f = 1000, mimetype = ''application/pdf'' \<rparr>"

definition formA :: form where
  "formA = \<lparr> title_f = Some ''Budget'', description_f = Some ''Annual budget'',
             category_f = Some ''finance'', department_f = Some ''Accounts'',
             confidentiality_f = Some ''internal'', tags_f = Some ''q1, money'' \<rparr>"

definition fileB :: upload_file where
  "fileB = \<lparr> filename = storage_filename 1700000060000 ''lease.pdf'',
             originalname = ''lease.pdf'',
             size_f = 2000, mimetype = ''application/pdf'' \<rparr>"

definition formB :: form where
  "formB = \<lparr> title_f = Some ''Lease'', description_f = Some ''Office lease'',
             category_f = Some ''legal'', department_f = Some ''Contracts'',
             confidentiality_f = Some ''public'', tags_f = None \<rparr>"

definition stampA :: string where "stampA = ''2023-11-14T22:13:20.000Z''"
definition stampB :: string where "stampB = ''2023-11-14T22:14:20.000Z''"

definition repoA :: "document list" where
  "repoA = snd (post_document (Some fileA) formA 1700000000000 stampA [])"

definition repoAB :: "document list" where
  "repoAB = snd (post_document (Some fileB) formB 1700000060000 stampB repoA)"

text \<open>
  Both documents updated once, document A first: A is uploaded, its title is updated, B is
  uploaded, its title is updated a minute after A's.
\<close>

definition repoUpdated :: "document list" where
  "repoUpdated =
     snd (put_document (new_id 1700000060000) (no_changes\<lparr>title_b := Some ''Lease 2024''\<rparr>)
            ''2023-11-14T22:14:30.000Z''
       (snd (post_document (Some fileB) formB 1700000060000 stampB
         (snd (put_document (new_id 1700000000000) (no_changes\<lparr>title_b := Some ''Budget 2024''\<rparr>)
                 ''2023-11-14T22:13:30.000Z'' repoA)))))"

section \<open>Auxiliary facts\<close>

lemma digit_value_digit: "d < 10 \<Longrightarrow> digit_value (digit d) = d"
proof -
  assume "d < 10"
  then have "d \<in> {0, 1, 2, 3, 4, 5, 6, 7, 8, 9}" by auto
  then show ?thesis by (auto simp: digit_def digit_value_def)
qed

lemma nat_of_string_snoc: "nat_of_string (s @ [c]) = 10 * nat_of_string s + digit_value c"
  by (simp add: nat_of_string_def)

lemma nat_of_string_of_nat: "nat_of_string (string_of_nat n) = n"
proof (induction n rule: string_of_nat.induct)
  case (1 n)
  show ?case
  proof (cases "n < 10")
    case True
    then show ?thesis
      by (simp add: string_of_nat.simps [of n] nat_of_string_def digit_value_digit)
  next
    case False
    then have "nat_of_string (string_of_nat n) = 10 * (n div 10) + n mod 10"
      using 1 by (simp add: string_of_nat.simps [of n] nat_of_string_snoc digit_value_digit)
    then show ?thesis by simp
  qed
qed

lemma string_of_nat_inject: "string_of_nat a = string_of_nat b \<longleftrightarrow> a = b"
  by (metis nat_of_string_of_nat)

lemma new_id_inject: "new_id a = new_id b \<longleftrightarrow> a = b"
  by (simp add: new_id_def string_of_nat_inject)


lemma findIndex_holds: "findIndex p xs = Some i \<Longrightarrow> p (xs ! i)"
  by (induction xs arbitrary: i) (auto split: if_splits)

lemma findIndex_first: "findIndex p xs = Some i \<Longrightarrow> j < i \<Longrightarrow> \<not> p (xs ! j)"
proof (induction xs arbitrary: i j)
  case Nil
  then show ?case by simp
next
  case (Cons x xs)
  then show ?case by (cases j) (auto split: if_splits)
qed

lemma findIndex_None: "findIndex p xs = None \<longleftrightarrow> (\<forall>x \<in> set xs. \<not> p x)"
  by (induction xs) auto

lemma updatedDocument_version: "version (updatedDocument d body stamp) = version d + 1"
  by (simp add: updatedDocument_def Let_def)

lemma updatedDocument_history:
  "history (updatedDocument d body stamp) = update_entry (version d + 1) stamp # history d"
  by (simp add: updatedDocument_def Let_def update_entry_def)

lemma put_document_found:
  "findIndex (\<lambda>doc. doc_id doc = rid) documents = Some i \<Longrightarrow>
   put_document rid body stamp documents =
     (Inr (updatedDocument (documents ! i) body stamp),
      documents[i := updatedDocument (documents ! i) body stamp])"
  by (simp add: put_document_def Let_def)


lemma updates_general:
  "updates i reqs documents = Some documents' \<Longrightarrow> i < length documents \<Longrightarrow>
   length documents' = length documents \<and>
   version (documents' ! i) = version (documents ! i) + length reqs \<and>
   history (documents' ! i) = update_entries (version (documents ! i)) reqs @ history (documents ! i)"
proof (induction reqs arbitrary: documents)
  case Nil
  then show ?case by simp
next
  case (Cons r reqs)
  obtain rid body stamp where r: "r = (rid, body, stamp)" by (cases r) auto
  let ?u = "updatedDocument (documents ! i) body stamp"
  let ?next = "documents[i := ?u]"
  from Cons.prems r have found: "findIndex (\<lambda>doc. doc_id doc = rid) documents = Some i"
    by (auto split: if_splits)
  with Cons.prems r have rest: "updates i reqs ?next = Some documents'"
    by (simp add: put_document_found)
  have len: "i < length ?next" using Cons.prems by simp
  note ih = Cons.IH [OF rest len]
  have at: "?next ! i = ?u" using Cons.prems by simp
  show ?case using ih r
    by (simp add: at updatedDocument_version updatedDocument_history)
qed

lemma length_update_entries: "length (update_entries v reqs) = length reqs"
  by (induction v reqs rule: update_entries.induct) auto

lemma changes_update_entries:
  "map changes (update_entries v reqs) = replicate (length reqs) ''Metadata updated''"
  by (induction v reqs rule: update_entries.induct)
     (auto simp: update_entry_def replicate_append_same)

lemma versions_update_entries:
  "map entry_version (update_entries v reqs) = map Some (rev [v + 1 ..< v + 1 + length reqs])"
proof (induction v reqs rule: update_entries.induct)
  case (1 v)
  then show ?case by simp
next
  case (2 v rid body stamp rest)
  have "[v + 1 ..< v + 1 + length ((rid, body, stamp) # rest)] = (v + 1) # [v + 1 + 1 ..< v + 1 + 1 + length rest]"
    by (subst upt_rec) simp
  then show ?case using 2 by (simp add: update_entry_def)
qed

lemma dates_update_entries:
  "map date (update_entries v reqs) = rev (map (\<lambda>(rid, body, stamp). Some stamp) reqs)"
  by (induction v reqs rule: update_entries.induct) (auto simp: update_entry_def)



lemma post_document_file:
  "post_document (Some f) body now stamp documents =
     (Inr (newDocument f body now stamp), documents @ [newDocument f body now stamp])"
  by (simp add: post_document_def Let_def)


lemma newDocument_id: "doc_id (newDocument f body now stamp) = new_id now"
  by (simp add: newDocument_def)

lemma newDocument_version: "version (newDocument f body now stamp) = 1"
  by (simp add: newDocument_def)

lemma newDocument_status: "status (newDocument f body now stamp) = ''pending''"
  by (simp add: newDocument_def)

lemma newDocument_history:
  "history (newDocument f body now stamp) =
     [\<lparr> entry_version = None, date = None, user = ''Ahmed Mohamud'', changes = ''Initial upload'' \<rparr>]"
  by (simp add: newDocument_def)

lemma filter_throwing_Inr:
  "filter_throwing p xs = Inr ys \<Longrightarrow> ys = filter (\<lambda>x. p x = Inr True) xs"
  by (induction xs arbitrary: ys) (auto split: sum.splits if_splits)

lemma filter_throwing_Inl:
  "(\<exists>e. filter_throwing p xs = Inl e) \<longleftrightarrow> (\<exists>x \<in> set xs. \<exists>e. p x = Inl e)"
  by (induction xs) (auto split: sum.splits)

lemma matches_q_error: "matches_q s doc = Inl e \<Longrightarrow> e = TypeError"
  by (auto simp: matches_q_def split: option.splits if_splits)

lemma filter_throwing_matches_q_error:
  "filter_throwing (matches_q s) xs = Inl e \<Longrightarrow> e = TypeError"
  by (induction xs arbitrary: e) (auto split: sum.splits dest: matches_q_error)

lemma filter_if: "(if c then filter p xs else xs) = filter (\<lambda>x. c \<longrightarrow> p x) xs"
  by simp

lemma list_documents_stages:
  "list_documents parse qry documents =
     (case free_text qry documents of
        Inl e \<Rightarrow> Inl e
      | Inr f1 \<Rightarrow> Inr (filter (pure_criteria parse qry) f1))"
  unfolding list_documents_def free_text_def Let_def filter_if filter_filter pure_criteria_def
  by (rule sum.case_cong) (auto intro: filter_cong)

lemma free_text_Inr:
  "free_text qry documents = Inr f1 \<Longrightarrow> \<exists>p. f1 = filter p documents"
proof (cases "truthy (q_p qry)")
  case True
  assume "free_text qry documents = Inr f1"
  with True show ?thesis
    by (auto simp: free_text_def dest: filter_throwing_Inr)
next
  case False
  assume "free_text qry documents = Inr f1"
  with False have "f1 = filter (\<lambda>x. True) documents" by (simp add: free_text_def)
  then show ?thesis by blast
qed

lemma list_documents_filter:
  "list_documents parse qry documents = Inr r \<Longrightarrow> \<exists>p. r = filter p documents"
proof -
  assume a: "list_documents parse qry documents = Inr r"
  then obtain f1 where f1: "free_text qry documents = Inr f1"
    and r: "r = filter (pure_criteria parse qry) f1"
    by (auto simp: list_documents_stages split: sum.splits)
  from free_text_Inr [OF f1] obtain p where "f1 = filter p documents" by blast
  with r have "r = filter (\<lambda>x. p x \<and> pure_criteria parse qry x) documents" by (simp add: conj_commute)
  then show ?thesis by blast
qed

lemma filter_member_filter: "filter (\<lambda>x. x \<in> set (filter p xs)) xs = filter p xs"
  by (auto intro: filter_cong)

lemma filter_member_both:
  "filter (\<lambda>x. x \<in> set (filter p xs) \<and> x \<in> set (filter r xs)) xs = filter (\<lambda>x. p x \<and> r x) xs"
  by (auto intro: filter_cong)

lemma pick_field:
  "\<not> both x y \<Longrightarrow> (truthy (pick x y) \<longrightarrow> v = pick x y) = ((truthy x \<longrightarrow> v = x) \<and> (truthy y \<longrightarrow> v = y))"
  by (auto simp: pick_def both_def)

lemma pick_the:
  "\<not> both x y \<Longrightarrow> (truthy (pick x y) \<longrightarrow> p (the (pick x y))) = ((truthy x \<longrightarrow> p (the x)) \<and> (truthy y \<longrightarrow> p (the y)))"
  by (auto simp: pick_def both_def)

lemma pure_criteria_combine:
  "different_criteria a b \<Longrightarrow>
   pure_criteria parse (combine a b) doc = (pure_criteria parse a doc \<and> pure_criteria parse b doc)"
  unfolding different_criteria_def pure_criteria_def combine_def
  by (simp add: pick_field pick_the) blast

lemma pure_criteria_combine_fun:
  "different_criteria a b \<Longrightarrow>
   pure_criteria parse (combine a b) =
     (\<lambda>doc. pure_criteria parse a doc \<and> pure_criteria parse b doc)"
  by (rule ext) (rule pure_criteria_combine)

lemma free_text_combine:
  "different_criteria a b \<Longrightarrow>
   free_text (combine a b) documents =
     (if truthy (q_p a) then free_text a documents else free_text b documents)"
  by (auto simp: free_text_def combine_def pick_def different_criteria_def both_def)

lemma free_text_absent: "\<not> truthy (q_p a) \<Longrightarrow> free_text a documents = Inr documents"
  by (simp add: free_text_def)

lemma list_documents_with_absent:
  assumes ny: "\<not> truthy (q_p y)"
  shows "(case free_text x documents of Inl e \<Rightarrow> Inl e
      | Inr f1 \<Rightarrow> Inr (filter (\<lambda>doc. pure_criteria parse x doc \<and> pure_criteria parse y doc) f1)) =
     intersection documents (list_documents parse x documents) (list_documents parse y documents)"
proof (cases "free_text x documents")
  case (Inl e)
  then show ?thesis by (simp add: intersection_def list_documents_stages)
next
  case (Inr f1)
  from free_text_Inr [OF Inr] obtain p where p: "f1 = filter p documents" by blast
  have "filter (\<lambda>doc. doc \<in> set (filter (\<lambda>x'. p x' \<and> pure_criteria parse x x') documents)
                \<and> doc \<in> set (filter (pure_criteria parse y) documents)) documents
        = filter (\<lambda>doc. (p doc \<and> pure_criteria parse x doc) \<and> pure_criteria parse y doc) documents"
    by (rule filter_member_both)
  then show ?thesis using Inr p
    by (simp add: intersection_def list_documents_stages free_text_absent [OF ny] conj_commute
          conj_left_commute)
qed

lemma intersection_commute:
  assumes "\<not> truthy (q_p a)"
  shows "intersection documents (list_documents parse b documents) (list_documents parse a documents)
       = intersection documents (list_documents parse a documents) (list_documents parse b documents)"
  using assms
  by (auto simp: intersection_def list_documents_stages free_text_absent conj_commute
        split: sum.splits)

lemma list_documents_combine:
  assumes d: "different_criteria a b"
  shows "list_documents parse (combine a b) documents =
           intersection documents (list_documents parse a documents) (list_documents parse b documents)"
proof (cases "truthy (q_p a)")
  case True
  with d have nb: "\<not> truthy (q_p b)" by (simp add: different_criteria_def both_def)
  show ?thesis
    unfolding list_documents_stages [of parse "combine a b"] free_text_combine [OF d]
      pure_criteria_combine_fun [OF d]
    using list_documents_with_absent [OF nb, where x = a and documents = documents and parse = parse]
      True
    by simp
next
  case False
  have swap: "(\<lambda>doc. pure_criteria parse a doc \<and> pure_criteria parse b doc)
            = (\<lambda>doc. pure_criteria parse b doc \<and> pure_criteria parse a doc)"
    by (auto simp: fun_eq_iff)
  show ?thesis
    unfolding list_documents_stages [of parse "combine a b"] free_text_combine [OF d]
      pure_criteria_combine_fun [OF d] swap
    using list_documents_with_absent [OF False, where x = b and documents = documents and parse = parse]
      False intersection_commute [OF False, where b = b and documents = documents and parse = parse]
    by simp
qed

lemma different_no_criteria: "different_criteria a no_criteria"
  by (simp add: different_criteria_def no_criteria_def both_def truthy_def)

lemma list_documents_no_criteria: "list_documents parse no_criteria documents = Inr documents"
  by (simp add: list_documents_def no_criteria_def truthy_def)

lemma list_documents_order:
  "(case list_documents parse a documents of Inl e \<Rightarrow> True
    | Inr r \<Rightarrow> r = filter (\<lambda>doc. doc \<in> set r) documents)"
proof (cases "list_documents parse a documents")
  case (Inl e)
  then show ?thesis by simp
next
  case (Inr r)
  from list_documents_filter [OF Inr] obtain p where "r = filter p documents" by blast
  then have "r = filter (\<lambda>doc. doc \<in> set r) documents"
    by (simp only: filter_member_filter)
  then show ?thesis using Inr by simp
qed

lemma intersection_all:
  "intersection documents (list_documents parse a documents) (Inr documents)
     = list_documents parse a documents"
proof (cases "list_documents parse a documents")
  case (Inl e)
  then show ?thesis by (simp add: intersection_def)
next
  case (Inr r)
  from list_documents_filter [OF Inr] obtain p where r: "r = filter p documents" by blast
  have "filter (\<lambda>doc. doc \<in> set (filter p documents) \<and> doc \<in> set documents) documents
          = filter p documents"
    by (auto intro: filter_cong)
  then show ?thesis using Inr r by (simp add: intersection_def)
qed

lemma fileA_value:
  "fileA = \<lparr> filename = ''1700000000000-budget.pdf'', originalname = ''budget.pdf'',
             size_f = 1000, mimetype = ''application/pdf'' \<rparr>"
  by (simp add: fileA_def storage_filename_def string_of_nat.simps digit_def)

lemma fileB_value:
  "fileB = \<lparr> filename = ''1700000060000-lease.pdf'', originalname = ''lease.pdf'',
             size_f = 2000, mimetype = ''application/pdf'' \<rparr>"
  by (simp add: fileB_def storage_filename_def string_of_nat.simps digit_def)

lemma repoA_value:
  "repoA = [newDocument fileA formA 1700000000000 stampA]"
  by (simp add: repoA_def post_document_file)

lemma repoAB_value:
  "repoAB = [newDocument fileA formA 1700000000000 stampA,
             newDocument fileB formB 1700000060000 stampB]"
  by (simp add: repoAB_def repoA_value post_document_file)

lemma spread_no_key:
  "doc_id (spread d body) = over (doc_id d) (id_b body)"
  "fileName (spread d body) = over (fileName d) (fileName_b body)"
  "originalName (spread d body) = over (originalName d) (originalName_b body)"
  "filePath (spread d body) = over (filePath d) (filePath_b body)"
  "fileSize (spread d body) = over (fileSize d) (fileSize_b body)"
  "fileType (spread d body) = over (fileType d) (fileType_b body)"
  by (simp_all add: spread_def)

lemma updatedDocument_fields:
  "doc_id (updatedDocument d body stamp) = over (doc_id d) (id_b body)"
  "fileName (updatedDocument d body stamp) = over (fileName d) (fileName_b body)"
  "originalName (updatedDocument d body stamp) = over (originalName d) (originalName_b body)"
  "filePath (updatedDocument d body stamp) = over (filePath d) (filePath_b body)"
  "fileSize (updatedDocument d body stamp) = over (fileSize d) (fileSize_b body)"
  "fileType (updatedDocument d body stamp) = over (fileType d) (fileType_b body)"
  by (simp_all add: updatedDocument_def Let_def spread_no_key)

lemma findIndex_repoA: "findIndex (\<lambda>doc. doc_id doc = new_id 1700000000000) repoA = Some 0"
  by (simp add: repoA_value newDocument_id)





lemma foldl_add_number:
  "a + sum_list (map fileSize documents) < 2 ^ 53 \<Longrightarrow>
   foldl (\<lambda>acc doc. add_number acc (fileSize doc)) (Some a) documents
     = Some (a + sum_list (map fileSize documents))"
proof (induction documents arbitrary: a)
  case Nil
  then show ?case by simp
next
  case (Cons d documents)
  from Cons.prems have step: "a + fileSize d < 2 ^ 53" by simp
  from Cons.prems have rest: "(a + fileSize d) + sum_list (map fileSize documents) < 2 ^ 53"
    by (simp add: add.assoc)
  show ?case
    using Cons.IH [OF rest] step by (simp add: add_number_def add.assoc)
qed

lemma storageUsedInBytes_sum:
  "sum_list (map fileSize documents) < 2 ^ 53 \<Longrightarrow>
   storageUsedInBytes documents = Some (sum_list (map fileSize documents))"
  using foldl_add_number [of 0 documents] by (simp add: storageUsedInBytes_def)

lemma toFixed2_MB_nearest:
  assumes "bytes < 2 ^ 53"
  shows "\<exists>n. toFixed2_MB bytes
           = Some (string_of_nat (n div 100) @ ''.'' @ [digit (n mod 100 div 10), digit (n mod 10)])
     \<and> 2 * 1048576 * n \<le> 200 * bytes + 1048576
     \<and> 200 * bytes + 1048576 < 2 * 1048576 * (n + 1)"
proof -
  let ?n = "(2 * (100 * bytes) + 1024 * 1024) div (2 * (1024 * 1024))"
  have pos: "(0::nat) < 2 * (1024 * 1024)" by simp
  have lo: "2 * 1048576 * ?n \<le> 200 * bytes + 1048576"
    using times_div_less_eq_dividend [of "2 * (1024 * 1024)" "2 * (100 * bytes) + 1024 * 1024"]
    by simp
  have hi: "200 * bytes + 1048576 < 2 * 1048576 * (?n + 1)"
    using dividend_less_times_div [OF pos, of "2 * (100 * bytes) + 1024 * 1024"] by simp
  have "toFixed2_MB bytes
           = Some (string_of_nat (?n div 100) @ ''.'' @ [digit (?n mod 100 div 10), digit (?n mod 10)])
     \<and> 2 * 1048576 * ?n \<le> 200 * bytes + 1048576
     \<and> 200 * bytes + 1048576 < 2 * 1048576 * (?n + 1)"
    using lo hi assms by (simp add: toFixed2_MB_def Let_def)
  then show ?thesis
    by (rule exI [where x = "(2 * (100 * bytes) + 1024 * 1024) div (2 * (1024 * 1024))"])
qed

lemma repoUpdated_value:
  "repoUpdated =
     [updatedDocument (newDocument fileA formA 1700000000000 stampA)
        (no_changes\<lparr>title_b := Some ''Budget 2024''\<rparr>) ''2023-11-14T22:13:30.000Z'',
      updatedDocument (newDocument fileB formB 1700000060000 stampB)
        (no_changes\<lparr>title_b := Some ''Lease 2024''\<rparr>) ''2023-11-14T22:14:30.000Z'']"
proof -
  let ?a = "updatedDocument (newDocument fileA formA 1700000000000 stampA)
        (no_changes\<lparr>title_b := Some ''Budget 2024''\<rparr>) ''2023-11-14T22:13:30.000Z''"
  have one: "snd (put_document (new_id 1700000000000) (no_changes\<lparr>title_b := Some ''Budget 2024''\<rparr>)
                 ''2023-11-14T22:13:30.000Z'' repoA) = [?a]"
    by (simp only: put_document_found [OF findIndex_repoA] snd_conv) (simp add: repoA_value)
  have ida: "doc_id ?a = new_id 1700000000000"
    by (simp add: updatedDocument_fields over_def no_changes_def newDocument_id)
  have two: "findIndex (\<lambda>doc. doc_id doc = new_id 1700000060000)
     [?a, newDocument fileB formB 1700000060000 stampB] = Some 1"
    by (simp add: ida new_id_inject newDocument_id)
  show ?thesis
    unfolding repoUpdated_def one
    by (simp add: post_document_file put_document_found [OF two])
qed

lemma startsWith_length: "startsWith s t \<Longrightarrow> length t \<le> length s"
proof -
  assume "startsWith s t"
  then have "length (take (length t) s) = length t"
    unfolding startsWith_def by (rule arg_cong)
  then show ?thesis by (simp add: min_def split: if_splits)
qed

lemma includes_str_length: "includes_str s t \<Longrightarrow> length t \<le> length s"
proof (induction s)
  case Nil
  then show ?case by simp
next
  case (Cons c cs)
  from Cons.prems have "startsWith (c # cs) t \<or> includes_str cs t" by simp
  then show ?case
  proof
    assume "startsWith (c # cs) t"
    then show ?thesis by (rule startsWith_length)
  next
    assume "includes_str cs t"
    then have "length t \<le> length cs" by (rule Cons.IH)
    then show ?thesis by simp
  qed
qed

lemma length_toLowerCase: "length (toLowerCase s) = length s"
  by (simp add: toLowerCase_def)

lemma matches_q_throws:
  "(\<exists>e. matches_q s doc = Inl e) \<longleftrightarrow>
     (title doc = None
      \<or> (description doc = None \<and> \<not> includes_str (toLowerCase (the (title doc))) s))"
  by (auto simp: matches_q_def split: option.splits)

lemma list_documents_throws:
  assumes "truthy (q_p qry)"
  shows "list_documents parse qry documents = Inl TypeError \<longleftrightarrow>
     (\<exists>doc \<in> set documents. \<exists>e. matches_q (toLowerCase (the (q_p qry))) doc = Inl e)"
proof -
  let ?p = "matches_q (toLowerCase (the (q_p qry)))"
  have "list_documents parse qry documents = Inl TypeError \<longleftrightarrow>
          filter_throwing ?p documents = Inl TypeError"
    using assms by (auto simp: list_documents_stages free_text_def split: sum.splits)
  also have "\<dots> \<longleftrightarrow> (\<exists>e. filter_throwing ?p documents = Inl e)"
    using filter_throwing_matches_q_error by blast
  also have "\<dots> \<longleftrightarrow> (\<exists>doc \<in> set documents. \<exists>e. ?p doc = Inl e)"
    by (rule filter_throwing_Inl)
  finally show ?thesis .
qed

lemma list_documents_total:
  "(\<exists>r. list_documents parse qry documents = Inr r) \<longleftrightarrow>
     list_documents parse qry documents \<noteq> Inl TypeError"
proof (cases "list_documents parse qry documents")
  case (Inl e)
  then have "e = TypeError"
    by (auto simp: list_documents_stages free_text_def split: sum.splits if_splits
          dest: filter_throwing_matches_q_error)
  with Inl show ?thesis by simp
next
  case (Inr r)
  then show ?thesis by simp
qed

lemma truthy_Some: "truthy (Some s) = (s \<noteq> [])"
  by (simp add: truthy_def)

lemma free_text_total:
  "(\<forall>s. s \<noteq> [] \<longrightarrow> (\<exists>r. list_documents parse (no_criteria\<lparr>q_p := Some s\<rparr>) documents = Inr r))
     \<longleftrightarrow> (\<forall>doc \<in> set documents. title doc \<noteq> None \<and> description doc \<noteq> None)"
proof
  assume total: "\<forall>s. s \<noteq> [] \<longrightarrow>
      (\<exists>r. list_documents parse (no_criteria\<lparr>q_p := Some s\<rparr>) documents = Inr r)"
  show "\<forall>doc \<in> set documents. title doc \<noteq> None \<and> description doc \<noteq> None"
  proof
    fix doc
    assume doc: "doc \<in> set documents"
    let ?s = "replicate (Suc (length (the (title doc)))) CHR ''a''"
    have ne: "?s \<noteq> []" by simp
    have t: "truthy (q_p (no_criteria\<lparr>q_p := Some ?s\<rparr>))" by (simp add: truthy_Some)
    from total ne have "list_documents parse (no_criteria\<lparr>q_p := Some ?s\<rparr>) documents \<noteq> Inl TypeError"
      by (simp only: list_documents_total [symmetric]) blast
    then have no: "\<not> (\<exists>e. matches_q (toLowerCase ?s) doc = Inl e)"
      using list_documents_throws [OF t, of parse documents] doc by auto
    have long: "\<not> includes_str (toLowerCase (the (title doc))) (toLowerCase ?s)"
      using includes_str_length [of "toLowerCase (the (title doc))" "toLowerCase ?s"]
      by (auto simp: length_toLowerCase)
    have "\<not> (title doc = None
        \<or> (description doc = None
            \<and> \<not> includes_str (toLowerCase (the (title doc))) (toLowerCase ?s)))"
      using no unfolding matches_q_throws by simp
    with long show "title doc \<noteq> None \<and> description doc \<noteq> None"
      by auto
  qed
next
  assume all: "\<forall>doc \<in> set documents. title doc \<noteq> None \<and> description doc \<noteq> None"
  show "\<forall>s. s \<noteq> [] \<longrightarrow>
      (\<exists>r. list_documents parse (no_criteria\<lparr>q_p := Some s\<rparr>) documents = Inr r)"
  proof (intro allI impI)
    fix s :: string
    assume "s \<noteq> []"
    then have t: "truthy (q_p (no_criteria\<lparr>q_p := Some s\<rparr>))" by (simp add: truthy_Some)
    have "\<not> (\<exists>doc \<in> set documents. \<exists>e. matches_q (toLowerCase s) doc = Inl e)"
      unfolding matches_q_throws using all by blast
    then have "list_documents parse (no_criteria\<lparr>q_p := Some s\<rparr>) documents \<noteq> Inl TypeError"
      using list_documents_throws [OF t, of parse documents] by simp
    then show "\<exists>r. list_documents parse (no_criteria\<lparr>q_p := Some s\<rparr>) documents = Inr r"
      unfolding list_documents_total by simp
  qed
qed

lemma list_documents_new_throws:
  assumes "s \<noteq> []"
    and "\<exists>e. matches_q (toLowerCase s) (newDocument f body now stamp) = Inl e"
  shows "list_documents parse (qry\<lparr>q_p := Some s\<rparr>)
           (snd (post_document (Some f) body now stamp documents)) = Inl TypeError"
proof -
  have t: "truthy (q_p (qry\<lparr>q_p := Some s\<rparr>))" using assms(1) by (simp add: truthy_Some)
  have "newDocument f body now stamp \<in> set (snd (post_document (Some f) body now stamp documents))"
    by (simp add: post_document_file)
  then show ?thesis
    using assms(2) unfolding list_documents_throws [OF t] by auto
qed

section \<open>Creation\<close>

text \<open>
  C6, as the handler has it. A request that carries a file always succeeds: the new
  document is appended to \<^verbatim>\<open>documents\<close> and returned, with version 1, status
  \<^verbatim>\<open>pending\<close> and a history of exactly one entry, whose summary is \<^verbatim>\<open>Initial upload\<close>.
  Its id is \<^verbatim>\<open>DOC-\<close> followed by the clock reading in milliseconds: two uploads get
  the same id exactly when they read the same millisecond, and the stored ids are not
  looked at.
\<close>

theorem post_document_creates:
  "\<exists>d. post_document (Some f) body now stamp documents = (Inr d, documents @ [d])
     \<and> version d = 1 \<and> status d = ''pending''
     \<and> doc_id d = ''DOC-'' @ string_of_nat now
     \<and> (\<forall>f' body' now' stamp'.
           (doc_id (newDocument f' body' now' stamp') = doc_id d) = (now' = now))
     \<and> length (history d) = 1
     \<and> map changes (history d) = [''Initial upload'']"
proof -
  let ?d = "newDocument f body now stamp"
  have "post_document (Some f) body now stamp documents = (Inr ?d, documents @ [?d])
     \<and> version ?d = 1 \<and> status ?d = ''pending''
     \<and> doc_id ?d = ''DOC-'' @ string_of_nat now
     \<and> (\<forall>f' body' now' stamp'.
           (doc_id (newDocument f' body' now' stamp') = doc_id ?d) = (now' = now))
     \<and> length (history ?d) = 1
     \<and> map changes (history ?d) = [''Initial upload'']"
    by (simp add: post_document_file newDocument_id newDocument_version newDocument_status
          newDocument_history new_id_inject)
       (simp add: new_id_def)
  then show ?thesis by (rule exI [where x = "newDocument f body now stamp"])
qed

text \<open>
  C6 as stated fails: a second upload in the millisecond of the first one gets the id the
  first one has, so the id is neither fresh nor unique in the repository.
\<close>

theorem post_document_same_clock_counterexample:
  "\<exists>d docs. post_document (Some fileB) formB 1700000000000 stampB repoA = (Inr d, docs)
     \<and> doc_id d \<in> doc_id ` set repoA \<and> \<not> distinct (map doc_id docs)"
  by (simp add: repoA_def post_document_file newDocument_def)

section \<open>Metadata updates\<close>

text \<open>
  C1. Take a document as the upload handler has just stored it (at the end of
  \<^verbatim>\<open>documents\<close>) and any run of \<open>N\<close> update requests that each succeed on it. Then its
  version is \<open>1 + N\<close> and its history has \<open>1 + N\<close> entries: \<open>N\<close> entries with the summary
  \<^verbatim>\<open>Metadata updated\<close>, carrying the versions \<open>N + 1\<close> down to \<open>2\<close> and the time stamps
  of the requests from the last one back to the first, and then the entry of the upload.
\<close>

theorem updates_version_history:
  assumes "updates (length documents) reqs
             (snd (post_document (Some f) body now stamp documents)) = Some documents'"
  shows "version (documents' ! length documents) = 1 + length reqs
     \<and> length (history (documents' ! length documents)) = 1 + length reqs
     \<and> map changes (history (documents' ! length documents))
         = replicate (length reqs) ''Metadata updated'' @ [''Initial upload'']
     \<and> map entry_version (history (documents' ! length documents))
         = map Some (rev [2 ..< 2 + length reqs]) @ [None]
     \<and> map date (history (documents' ! length documents))
         = rev (map (\<lambda>(rid, body, stamp). Some stamp) reqs) @ [None]"
proof -
  let ?d = "newDocument f body now stamp"
  let ?i = "length documents"
  have start: "updates ?i reqs (documents @ [?d]) = Some documents'"
    using assms by (simp add: post_document_file)
  have at: "(documents @ [?d]) ! ?i = ?d" by simp
  have v: "version ?d = 1" by (rule newDocument_version)
  have h: "history ?d =
      [\<lparr> entry_version = None, date = None, user = ''Ahmed Mohamud'', changes = ''Initial upload'' \<rparr>]"
    by (rule newDocument_history)
  from updates_general [OF start] at v h
  have ver: "version (documents' ! ?i) = 1 + length reqs"
    and hist: "history (documents' ! ?i) = update_entries 1 reqs
        @ [\<lparr> entry_version = None, date = None, user = ''Ahmed Mohamud'', changes = ''Initial upload'' \<rparr>]"
    by simp_all
  have two: "map Some (rev [1 + 1 ..< 1 + 1 + length reqs]) = map Some (rev [2 ..< 2 + length reqs])"
    by (simp add: numeral_2_eq_2)
  show ?thesis
    using ver two
    by (simp add: hist length_update_entries changes_update_entries versions_update_entries
          dates_update_entries)
qed

text \<open>
  C1 at work: document A is uploaded and its title is updated once; the version is 2 and
  the entry of the update stands before the entry of the upload.
\<close>

theorem updates_version_history_witness:
  "\<exists>docs. updates 0 [(new_id 1700000000000, no_changes\<lparr>title_b := Some ''Budget 2024''\<rparr>, stampB)]
            (snd (post_document (Some fileA) formA 1700000000000 stampA [])) = Some docs
     \<and> version (docs ! 0) = 2
     \<and> map changes (history (docs ! 0)) = [''Metadata updated'', ''Initial upload'']"
proof -
  let ?reqs = "[(new_id 1700000000000, no_changes\<lparr>title_b := Some ''Budget 2024''\<rparr>, stampB)]"
  obtain docs where run: "updates (length ([] :: document list)) ?reqs
      (snd (post_document (Some fileA) formA 1700000000000 stampA [])) = Some docs"
    by (simp add: post_document_file newDocument_def)
  from updates_version_history [OF run] run show ?thesis by simp
qed

section \<open>Filtering\<close>

text \<open>
  C7. With no criteria the handler answers with all documents, in the order of
  \<^verbatim>\<open>documents\<close>. Two queries that name different criteria, put together, give the
  documents that are in both of their answers, again in the order of \<^verbatim>\<open>documents\<close>;
  when one of the two requests fails (the free-text filter throws), so does the combined
  one. A criterion that is absent changes nothing. Every answer keeps the order and the
  repetitions of \<^verbatim>\<open>documents\<close>: it is \<^verbatim>\<open>documents\<close> cut down to the members of the
  answer, and the only failure is the \<^verbatim>\<open>TypeError\<close>.
\<close>

theorem list_documents_criteria:
  assumes "different_criteria a b"
  shows "list_documents parse no_criteria documents = Inr documents
     \<and> list_documents parse (combine a b) documents
         = intersection documents (list_documents parse a documents)
             (list_documents parse b documents)
     \<and> list_documents parse (combine a no_criteria) documents = list_documents parse a documents
     \<and> (case list_documents parse a documents of
           Inl e \<Rightarrow> e = TypeError
         | Inr r \<Rightarrow> r = filter (\<lambda>doc. doc \<in> set r) documents)"
proof -
  have absent: "list_documents parse (combine a no_criteria) documents
                  = list_documents parse a documents"
    using list_documents_combine [OF different_no_criteria, where a = a and parse = parse
        and documents = documents]
    by (simp add: list_documents_no_criteria intersection_all)
  have order: "(case list_documents parse a documents of
           Inl e \<Rightarrow> e = TypeError
         | Inr r \<Rightarrow> r = filter (\<lambda>doc. doc \<in> set r) documents)"
    using list_documents_order [where parse = parse and a = a and documents = documents]
    by (auto simp: list_documents_stages free_text_def split: sum.splits if_splits
          dest: filter_throwing_matches_q_error)
  show ?thesis
    using list_documents_no_criteria list_documents_combine [OF assms] absent order
    by simp
qed

text \<open>
  C7 at work on the two uploads: category \<^verbatim>\<open>finance\<close> alone gives document A, status
  \<^verbatim>\<open>pending\<close> alone gives both documents, and the two together give document A.
\<close>

theorem list_documents_criteria_witness:
  "different_criteria (no_criteria\<lparr>category_p := Some ''finance''\<rparr>)
       (no_criteria\<lparr>status_p := Some ''pending''\<rparr>)
   \<and> list_documents (\<lambda>s. None)
         (combine (no_criteria\<lparr>category_p := Some ''finance''\<rparr>)
            (no_criteria\<lparr>status_p := Some ''pending''\<rparr>)) repoAB = Inr repoA
   \<and> list_documents (\<lambda>s. None) (no_criteria\<lparr>category_p := Some ''finance''\<rparr>) repoAB = Inr repoA
   \<and> list_documents (\<lambda>s. None) (no_criteria\<lparr>status_p := Some ''pending''\<rparr>) repoAB = Inr repoAB"
proof -
  let ?a = "no_criteria\<lparr>category_p := Some ''finance''\<rparr>"
  let ?b = "no_criteria\<lparr>status_p := Some ''pending''\<rparr>"
  have d: "different_criteria ?a ?b"
    by (simp add: different_criteria_def no_criteria_def both_def truthy_def)
  have a: "list_documents (\<lambda>s. None) ?a repoAB = Inr repoA"
    by (simp add: list_documents_def no_criteria_def truthy_def repoAB_value repoA_value
          newDocument_def formA_def formB_def)
  have b: "list_documents (\<lambda>s. None) ?b repoAB = Inr repoAB"
    by (simp add: list_documents_def no_criteria_def truthy_def repoAB_value
          newDocument_def)
  have i: "intersection repoAB (Inr repoA) (Inr repoAB) = Inr repoA"
    by (simp add: intersection_def repoAB_value repoA_value newDocument_def new_id_inject)
  from list_documents_criteria [OF d, where parse = "\<lambda>s. None" and documents = repoAB]
  have "list_documents (\<lambda>s. None) (combine ?a ?b) repoAB = Inr repoA"
    by (simp only: a b i)
  with d a b show ?thesis by simp
qed

section \<open>What an update leaves alone\<close>

text \<open>
  C2, as the handler has it. An update that finds its document replaces it by the updated
  one. The id and each file attribute (\<^verbatim>\<open>fileName\<close>, \<^verbatim>\<open>originalName\<close>, \<^verbatim>\<open>filePath\<close>,
  \<^verbatim>\<open>fileSize\<close>, \<^verbatim>\<open>fileType\<close>) keep their value when the body has no key of that name,
  and take the body's value when it has one: the body is spread over the document
  unfiltered. Only \<^verbatim>\<open>version\<close> and \<^verbatim>\<open>history\<close> are never taken from the body.
\<close>

theorem put_document_frame:
  assumes "findIndex (\<lambda>doc. doc_id doc = rid) documents = Some i"
  shows "\<exists>d. put_document rid body stamp documents = (Inr d, documents[i := d])
     \<and> doc_id d = (case id_b body of None \<Rightarrow> doc_id (documents ! i) | Some v \<Rightarrow> v)
     \<and> fileName d = (case fileName_b body of None \<Rightarrow> fileName (documents ! i) | Some v \<Rightarrow> v)
     \<and> originalName d
         = (case originalName_b body of None \<Rightarrow> originalName (documents ! i) | Some v \<Rightarrow> v)
     \<and> filePath d = (case filePath_b body of None \<Rightarrow> filePath (documents ! i) | Some v \<Rightarrow> v)
     \<and> fileSize d = (case fileSize_b body of None \<Rightarrow> fileSize (documents ! i) | Some v \<Rightarrow> v)
     \<and> fileType d = (case fileType_b body of None \<Rightarrow> fileType (documents ! i) | Some v \<Rightarrow> v)
     \<and> version d = version (documents ! i) + 1
     \<and> history d = update_entry (version (documents ! i) + 1) stamp # history (documents ! i)"
proof -
  let ?d = "updatedDocument (documents ! i) body stamp"
  have "put_document rid body stamp documents = (Inr ?d, documents[i := ?d])"
    using assms by (rule put_document_found)
  then have "put_document rid body stamp documents = (Inr ?d, documents[i := ?d])
     \<and> doc_id ?d = (case id_b body of None \<Rightarrow> doc_id (documents ! i) | Some v \<Rightarrow> v)
     \<and> fileName ?d = (case fileName_b body of None \<Rightarrow> fileName (documents ! i) | Some v \<Rightarrow> v)
     \<and> originalName ?d
         = (case originalName_b body of None \<Rightarrow> originalName (documents ! i) | Some v \<Rightarrow> v)
     \<and> filePath ?d = (case filePath_b body of None \<Rightarrow> filePath (documents ! i) | Some v \<Rightarrow> v)
     \<and> fileSize ?d = (case fileSize_b body of None \<Rightarrow> fileSize (documents ! i) | Some v \<Rightarrow> v)
     \<and> fileType ?d = (case fileType_b body of None \<Rightarrow> fileType (documents ! i) | Some v \<Rightarrow> v)
     \<and> version ?d = version (documents ! i) + 1
     \<and> history ?d = update_entry (version (documents ! i) + 1) stamp # history (documents ! i)"
    by (simp add: updatedDocument_fields updatedDocument_version updatedDocument_history over_def)
  then show ?thesis by (rule exI [where x = "updatedDocument (documents ! i) body stamp"])
qed

text \<open>
  C2 at work: an update of the title of document A leaves its id and its file attributes
  as the upload set them.
\<close>

theorem put_document_frame_witness:
  "findIndex (\<lambda>doc. doc_id doc = new_id 1700000000000) repoA = Some 0
   \<and> (\<exists>d. put_document (new_id 1700000000000) (no_changes\<lparr>title_b := Some ''Budget 2024''\<rparr>)
              stampB repoA = (Inr d, [d])
          \<and> doc_id d = new_id 1700000000000 \<and> fileName d = ''1700000000000-budget.pdf''
          \<and> originalName d = ''budget.pdf'' \<and> fileSize d = 1000
          \<and> fileType d = ''application/pdf'' \<and> version d = 2)"
proof -
  from put_document_frame [OF findIndex_repoA,
      where body = "no_changes\<lparr>title_b := Some ''Budget 2024''\<rparr>" and stamp = stampB]
  obtain d where "put_document (new_id 1700000000000) (no_changes\<lparr>title_b := Some ''Budget 2024''\<rparr>)
              stampB repoA = (Inr d, [d])
          \<and> doc_id d = new_id 1700000000000 \<and> fileName d = ''1700000000000-budget.pdf''
          \<and> originalName d = ''budget.pdf'' \<and> fileSize d = 1000
          \<and> fileType d = ''application/pdf'' \<and> version d = 2"
    by (auto simp: repoA_value newDocument_def no_changes_def fileA_value)
  then show ?thesis using findIndex_repoA by blast
qed

text \<open>
  C2 as stated fails: a body that carries \<^verbatim>\<open>id\<close>, \<^verbatim>\<open>fileName\<close>, \<^verbatim>\<open>originalName\<close>,
  \<^verbatim>\<open>fileSize\<close> and \<^verbatim>\<open>fileType\<close> changes all five on document A.
\<close>

theorem put_document_body_id_counterexample:
  "\<exists>d docs. put_document (new_id 1700000000000)
        (no_changes\<lparr>id_b := Some ''DOC-1'', fileName_b := Some ''other.bin'',
           originalName_b := Some ''other.txt'', fileSize_b := Some 0,
           fileType_b := Some ''text/plain''\<rparr>) stampB repoA = (Inr d, docs)
     \<and> doc_id (repoA ! 0) = ''DOC-1700000000000'' \<and> doc_id d = ''DOC-1''
     \<and> fileName (repoA ! 0) = ''1700000000000-budget.pdf'' \<and> fileName d = ''other.bin''
     \<and> originalName (repoA ! 0) = ''budget.pdf'' \<and> originalName d = ''other.txt''
     \<and> fileSize (repoA ! 0) = 1000 \<and> fileSize d = 0
     \<and> fileType (repoA ! 0) = ''application/pdf'' \<and> fileType d = ''text/plain''"
proof -
  let ?body = "no_changes\<lparr>id_b := Some ''DOC-1'', fileName_b := Some ''other.bin'',
           originalName_b := Some ''other.txt'', fileSize_b := Some 0,
           fileType_b := Some ''text/plain''\<rparr>"
  let ?d = "updatedDocument (repoA ! 0) ?body stampB"
  have run: "put_document (new_id 1700000000000) ?body stampB repoA = (Inr ?d, repoA[0 := ?d])"
    by (rule put_document_found [OF findIndex_repoA])
  have old: "doc_id (repoA ! 0) = ''DOC-1700000000000''
     \<and> fileName (repoA ! 0) = ''1700000000000-budget.pdf''
     \<and> originalName (repoA ! 0) = ''budget.pdf'' \<and> fileSize (repoA ! 0) = 1000
     \<and> fileType (repoA ! 0) = ''application/pdf''"
    by (simp add: repoA_value newDocument_def fileA_value new_id_def string_of_nat.simps digit_def)
  have new: "doc_id ?d = ''DOC-1'' \<and> fileName ?d = ''other.bin''
     \<and> originalName ?d = ''other.txt'' \<and> fileSize ?d = 0 \<and> fileType ?d = ''text/plain''"
    by (simp add: updatedDocument_fields over_def no_changes_def)
  show ?thesis
    apply (rule exI [where x = ?d])
    apply (rule exI [where x = "repoA[0 := ?d]"])
    using run old new by simp
qed

section \<open>Status updates\<close>

text \<open>
  C3. A status other than the strings \<^verbatim>\<open>approved\<close> and \<^verbatim>\<open>rejected\<close> (any other JSON
  value, or none) is answered with status 400 whatever the id is, known or not, and
  \<^verbatim>\<open>documents\<close> is returned as it was: the test comes before the lookup.
\<close>

theorem patch_status_invalid:
  assumes "st \<noteq> JString ''approved''" and "st \<noteq> JString ''rejected''"
  shows "patch_status rid st documents = (Inl (BadRequest ''Invalid status.''), documents)"
  using assms by (simp add: patch_status_def)

text \<open>
  C3 at work: \<^verbatim>\<open>archived\<close> for an id no document has is answered with 400 and not with
  404, and a body without \<^verbatim>\<open>status\<close> for the id of document A is answered with 400; the
  repository is unchanged in both.
\<close>

theorem patch_status_invalid_witness:
  "JString ''archived'' \<noteq> JString ''approved'' \<and> JString ''archived'' \<noteq> JString ''rejected''
   \<and> findIndex (\<lambda>doc. doc_id doc = ''DOC-0'') repoA = None
   \<and> patch_status ''DOC-0'' (JString ''archived'') repoA
       = (Inl (BadRequest ''Invalid status.''), repoA)
   \<and> findIndex (\<lambda>doc. doc_id doc = new_id 1700000000000) repoA = Some 0
   \<and> patch_status (new_id 1700000000000) JUndefined repoA
       = (Inl (BadRequest ''Invalid status.''), repoA)"
proof -
  have a: "JString ''archived'' \<noteq> JString ''approved''"
    and b: "JString ''archived'' \<noteq> JString ''rejected''" by simp_all
  have c: "JUndefined \<noteq> JString ''approved''" and d: "JUndefined \<noteq> JString ''rejected''"
    by simp_all
  have unknown: "findIndex (\<lambda>doc. doc_id doc = ''DOC-0'') repoA = None"
    by (simp add: repoA_value newDocument_id new_id_def string_of_nat.simps digit_def)
  show ?thesis
    using a b unknown findIndex_repoA
      patch_status_invalid [OF a b, where rid = "''DOC-0''" and documents = repoA]
      patch_status_invalid [OF c d, where rid = "new_id 1700000000000" and documents = repoA]
    by simp
qed

text \<open>
  C8. A valid status for the id of a stored document changes the \<^verbatim>\<open>status\<close> of that
  document and nothing else: the answer is the document with the new status, its version
  and history are the old ones, putting the old status back gives the old document, and
  every other place of \<^verbatim>\<open>documents\<close> is untouched.
\<close>

theorem patch_status_frame:
  assumes "st = JString ''approved'' \<or> st = JString ''rejected''"
    and "findIndex (\<lambda>doc. doc_id doc = rid) documents = Some i"
  shows "\<exists>d. patch_status rid st documents = (Inr d, documents[i := d])
     \<and> d = (documents ! i)\<lparr>status := string_of st\<rparr>
     \<and> JString (status d) = st
     \<and> version d = version (documents ! i)
     \<and> history d = history (documents ! i)
     \<and> d\<lparr>status := status (documents ! i)\<rparr> = documents ! i
     \<and> length (documents[i := d]) = length documents
     \<and> (\<forall>j. j \<noteq> i \<longrightarrow> documents[i := d] ! j = documents ! j)"
proof -
  let ?d = "(documents ! i)\<lparr>status := string_of st\<rparr>"
  have valid: "st \<in> set [JString ''approved'', JString ''rejected'']"
    using assms(1) by auto
  have run: "patch_status rid st documents = (Inr ?d, documents[i := ?d])"
    by (simp only: patch_status_def valid assms(2) not_True_eq_False if_False option.case Let_def)
  have str: "JString (status ?d) = st"
    using assms(1) by auto
  have undo: "?d\<lparr>status := status (documents ! i)\<rparr> = documents ! i"
    by simp
  have others: "\<forall>j. j \<noteq> i \<longrightarrow> documents[i := ?d] ! j = documents ! j"
    by simp
  have "patch_status rid st documents = (Inr ?d, documents[i := ?d])
     \<and> ?d = (documents ! i)\<lparr>status := string_of st\<rparr>
     \<and> JString (status ?d) = st
     \<and> version ?d = version (documents ! i)
     \<and> history ?d = history (documents ! i)
     \<and> ?d\<lparr>status := status (documents ! i)\<rparr> = documents ! i
     \<and> length (documents[i := ?d]) = length documents
     \<and> (\<forall>j. j \<noteq> i \<longrightarrow> documents[i := ?d] ! j = documents ! j)"
    using run str undo others by simp
  then show ?thesis by (rule exI [where x = "(documents ! i)\<lparr>status := string_of st\<rparr>"])
qed

text \<open>
  C8 at work: document A is approved; its version is still 1 and its history still the one
  entry of the upload.
\<close>

theorem patch_status_frame_witness:
  "findIndex (\<lambda>doc. doc_id doc = new_id 1700000000000) repoA = Some 0
   \<and> (\<exists>d. patch_status (new_id 1700000000000) (JString ''approved'') repoA = (Inr d, [d])
          \<and> status d = ''approved'' \<and> version d = 1
          \<and> map changes (history d) = [''Initial upload'']
          \<and> d\<lparr>status := ''pending''\<rparr> = repoA ! 0)"
proof -
  have ok: "JString ''approved'' = JString ''approved'' \<or> JString ''approved'' = JString ''rejected''"
    by simp
  from patch_status_frame [OF ok findIndex_repoA]
  obtain d where run: "patch_status (new_id 1700000000000) (JString ''approved'') repoA
                         = (Inr d, repoA[0 := d])"
    and d: "d = (repoA ! 0)\<lparr>status := string_of (JString ''approved'')\<rparr>"
    by (elim exE conjE)
  have r: "repoA[0 := d] = [d]" by (simp add: repoA_value)
  have s: "status d = ''approved''" by (simp add: d)
  have v: "version d = 1" by (simp add: d repoA_value newDocument_version)
  have h: "map changes (history d) = [''Initial upload'']"
    by (simp add: d repoA_value newDocument_history)
  have u: "d\<lparr>status := ''pending''\<rparr> = repoA ! 0"
    by (simp add: d repoA_value newDocument_def)
  have "patch_status (new_id 1700000000000) (JString ''approved'') repoA = (Inr d, [d])
          \<and> status d = ''approved'' \<and> version d = 1
          \<and> map changes (history d) = [''Initial upload'']
          \<and> d\<lparr>status := ''pending''\<rparr> = repoA ! 0"
    using run r s v h u by simp
  then have "\<exists>d. patch_status (new_id 1700000000000) (JString ''approved'') repoA = (Inr d, [d])
          \<and> status d = ''approved'' \<and> version d = 1
          \<and> map changes (history d) = [''Initial upload'']
          \<and> d\<lparr>status := ''pending''\<rparr> = repoA ! 0"
    by (rule exI [where x = d])
  with findIndex_repoA show ?thesis by (rule conjI)
qed

section \<open>Deletion\<close>




section \<open>Statistics of the repository\<close>

text \<open>
  C4, as the handler has it. \<^verbatim>\<open>totalDocuments\<close> is the number of documents and
  \<^verbatim>\<open>pendingApprovals\<close> the number of places of \<^verbatim>\<open>documents\<close> whose status is
  \<^verbatim>\<open>pending\<close>; \<^verbatim>\<open>activeUsers\<close> is 5. The answer has no field for the bytes. For a
  repository whose file sizes add up to less than \<open>2 ^ 53\<close> bytes, \<^verbatim>\<open>storageUsed\<close> is a
  string: the sum in units of 1048576 bytes rounded to the nearest hundredth (the larger
  one on a tie), printed with two decimals and followed by \<^verbatim>\<open>MB\<close>.
\<close>

theorem get_stats_value:
  "totalDocuments (get_stats documents) = length documents
   \<and> pendingApprovals (get_stats documents)
       = card {i. i < length documents \<and> status (documents ! i) = ''pending''}
   \<and> activeUsers (get_stats documents) = 5
   \<and> (sum_list (map fileSize documents) < 2 ^ 53 \<longrightarrow>
        (\<exists>n. storageUsed (get_stats documents)
              = Some (string_of_nat (n div 100) @ ''.''
                      @ [digit (n mod 100 div 10), digit (n mod 10)] @ '' MB'')
            \<and> 2 * 1048576 * n \<le> 200 * sum_list (map fileSize documents) + 1048576
            \<and> 200 * sum_list (map fileSize documents) + 1048576 < 2 * 1048576 * (n + 1)))"
proof -
  have total: "totalDocuments (get_stats documents) = length documents"
    and active: "activeUsers (get_stats documents) = 5"
    by (simp_all add: get_stats_def)
  have pending: "pendingApprovals (get_stats documents)
       = card {i. i < length documents \<and> status (documents ! i) = ''pending''}"
    by (simp add: get_stats_def length_filter_conv_card)
  have used: "sum_list (map fileSize documents) < 2 ^ 53 \<longrightarrow>
        (\<exists>n. storageUsed (get_stats documents)
              = Some (string_of_nat (n div 100) @ ''.''
                      @ [digit (n mod 100 div 10), digit (n mod 10)] @ '' MB'')
            \<and> 2 * 1048576 * n \<le> 200 * sum_list (map fileSize documents) + 1048576
            \<and> 200 * sum_list (map fileSize documents) + 1048576 < 2 * 1048576 * (n + 1))"
  proof
    assume small: "sum_list (map fileSize documents) < 2 ^ 53"
    from toFixed2_MB_nearest [OF small]
    obtain n where n: "toFixed2_MB (sum_list (map fileSize documents))
          = Some (string_of_nat (n div 100) @ ''.'' @ [digit (n mod 100 div 10), digit (n mod 10)])"
      and lo: "2 * 1048576 * n \<le> 200 * sum_list (map fileSize documents) + 1048576"
      and hi: "200 * sum_list (map fileSize documents) + 1048576 < 2 * 1048576 * (n + 1)"
      by (elim exE conjE)
    have "storageUsed (get_stats documents)
              = Some (string_of_nat (n div 100) @ ''.''
                      @ [digit (n mod 100 div 10), digit (n mod 10)] @ '' MB'')
            \<and> 2 * 1048576 * n \<le> 200 * sum_list (map fileSize documents) + 1048576
            \<and> 200 * sum_list (map fileSize documents) + 1048576 < 2 * 1048576 * (n + 1)"
      using lo hi by (simp add: get_stats_def storageUsedInBytes_sum [OF small] n)
    then show "\<exists>n. storageUsed (get_stats documents)
              = Some (string_of_nat (n div 100) @ ''.''
                      @ [digit (n mod 100 div 10), digit (n mod 10)] @ '' MB'')
            \<and> 2 * 1048576 * n \<le> 200 * sum_list (map fileSize documents) + 1048576
            \<and> 200 * sum_list (map fileSize documents) + 1048576 < 2 * 1048576 * (n + 1)"
      by (rule exI [where x = n])
  qed
  from total pending active used show ?thesis by (intro conjI)
qed

text \<open>
  C4 at work: after the uploads of 1000 and 2000 bytes there are two documents, both
  pending, the sum of 3000 bytes is below \<open>2 ^ 53\<close>, and the hundredths of a megabyte the
  theorem leaves for it are none: the answer carries \<^verbatim>\<open>0.00 MB\<close>.
\<close>

theorem get_stats_value_witness:
  "sum_list (map fileSize repoAB) < 2 ^ 53
   \<and> totalDocuments (get_stats repoAB) = 2
   \<and> card {i. i < length repoAB \<and> status (repoAB ! i) = ''pending''} = 2
   \<and> storageUsed (get_stats repoAB) = Some ''0.00 MB''"
proof -
  have sum: "sum_list (map fileSize repoAB) = 3000"
    by (simp add: repoAB_value newDocument_def fileA_value fileB_value)
  then have small: "sum_list (map fileSize repoAB) < 2 ^ 53" by simp
  note stats = get_stats_value [of repoAB]
  from stats have total: "totalDocuments (get_stats repoAB) = 2"
    by (simp add: repoAB_value)
  have "pendingApprovals (get_stats repoAB) = 2"
    by (simp add: get_stats_def repoAB_value newDocument_status)
  with stats have pending: "card {i. i < length repoAB \<and> status (repoAB ! i) = ''pending''} = 2"
    by simp
  from stats small obtain n where
    used: "storageUsed (get_stats repoAB)
              = Some (string_of_nat (n div 100) @ ''.''
                      @ [digit (n mod 100 div 10), digit (n mod 10)] @ '' MB'')"
    and lo: "2 * 1048576 * n \<le> 200 * sum_list (map fileSize repoAB) + 1048576"
    by blast
  from lo sum have "n = 0" by simp
  with used have "storageUsed (get_stats repoAB) = Some ''0.00 MB''"
    by (simp add: string_of_nat.simps digit_def)
  with small total pending show ?thesis by simp
qed

text \<open>
  C4 as stated fails: after the uploads of 1000 and 2000 bytes the sum is 3000 and the
  answer carries \<^verbatim>\<open>0.00 MB\<close>; a repository holding 5000 bytes gets the very same answer,
  so nothing in the answer equals the sum.
\<close>

theorem get_stats_bytes_counterexample:
  "storageUsedInBytes repoAB = Some 3000
   \<and> storageUsed (get_stats repoAB) = Some ''0.00 MB''
   \<and> storageUsedInBytes (snd (post_document (Some (fileB\<lparr>size_f := 4000\<rparr>)) formB
                                 1700000060000 stampB repoA)) = Some 5000
   \<and> get_stats (snd (post_document (Some (fileB\<lparr>size_f := 4000\<rparr>)) formB
                        1700000060000 stampB repoA)) = get_stats repoAB"
  by (simp add: repoAB_value repoA_value post_document_file newDocument_def fileA_value fileB_value
        get_stats_def storageUsedInBytes_def add_number_def toFixed2_MB_def string_of_nat.simps
        digit_def)

section \<open>The activity feed\<close>

text \<open>
  C5, on the repository in which document A was updated before document B was. Whatever
  the dates parse to, the feed lists the update of A, the upload of A, the update of B
  and the upload of B: the entries of the uploads carry no \<^verbatim>\<open>date\<close>, every comparison
  with one of them is \<^verbatim>\<open>NaN\<close>, and the later update of B stays behind the earlier
  update of A. Each entry of the flattened list compares \<^verbatim>\<open>NaN\<close> with its neighbour,
  in both directions, so the list the sort is given already counts as sorted.
\<close>

theorem get_activities_order:
  "map (\<lambda>a. (documentId a, changes a, date a)) (get_activities parse repoUpdated) =
     [(''DOC-1700000000000'', ''Metadata updated'', Some ''2023-11-14T22:13:30.000Z''),
      (''DOC-1700000000000'', ''Initial upload'', None),
      (''DOC-1700000060000'', ''Metadata updated'', Some ''2023-11-14T22:14:30.000Z''),
      (''DOC-1700000060000'', ''Initial upload'', None)]
   \<and> list_all (\<lambda>(x, y). compare_dates parse x y = None \<and> compare_dates parse y x = None)
         (zip (allActivities repoUpdated) (tl (allActivities repoUpdated)))"
  by (simp add: repoUpdated_value get_activities_def allActivities_def activities_of_def
        updatedDocument_history updatedDocument_fields newDocument_history newDocument_id
        over_def no_changes_def update_entry_def sort_by_def sort_compare_def compare_dates_def
        getTime_def new_id_def string_of_nat.simps digit_def split: option.splits)

section \<open>The free-text filter on documents without title or description\<close>

text \<open>
  C10. The upload handler stores \<^verbatim>\<open>title\<close> and \<^verbatim>\<open>description\<close> as the form gave
  them, absent ones included. After an upload without a title, every list request with a
  free-text term fails with the \<^verbatim>\<open>TypeError\<close>, whatever else the repository holds and
  whatever the other criteria are; after an upload without a description, the request
  fails for some term (one the title does not contain). The free-text filter answers for
  every term exactly when every stored document has a title and a description.
\<close>

theorem free_text_filter_throws:
  "title (newDocument f body now stamp) = title_f body
   \<and> description (newDocument f body now stamp) = description_f body
   \<and> (title_f body = None \<and> s \<noteq> [] \<longrightarrow>
        list_documents parse (qry\<lparr>q_p := Some s\<rparr>)
          (snd (post_document (Some f) body now stamp documents)) = Inl TypeError)
   \<and> (description_f body = None \<longrightarrow>
        (\<exists>s. s \<noteq> [] \<and>
           list_documents parse (qry\<lparr>q_p := Some s\<rparr>)
             (snd (post_document (Some f) body now stamp documents)) = Inl TypeError))
   \<and> ((\<forall>s. s \<noteq> [] \<longrightarrow>
          (\<exists>r. list_documents parse (no_criteria\<lparr>q_p := Some s\<rparr>) documents = Inr r))
        \<longleftrightarrow> (\<forall>doc \<in> set documents. title doc \<noteq> None \<and> description doc \<noteq> None))"
proof -
  let ?d = "newDocument f body now stamp"
  have stored: "title ?d = title_f body" "description ?d = description_f body"
    by (simp_all add: newDocument_def)
  have no_title: "title_f body = None \<and> s \<noteq> [] \<longrightarrow>
        list_documents parse (qry\<lparr>q_p := Some s\<rparr>)
          (snd (post_document (Some f) body now stamp documents)) = Inl TypeError"
  proof
    assume a: "title_f body = None \<and> s \<noteq> []"
    then have "\<exists>e. matches_q (toLowerCase s) ?d = Inl e"
      unfolding matches_q_throws by (simp add: stored)
    with a show "list_documents parse (qry\<lparr>q_p := Some s\<rparr>)
          (snd (post_document (Some f) body now stamp documents)) = Inl TypeError"
      by (simp add: list_documents_new_throws)
  qed
  have no_description: "description_f body = None \<longrightarrow>
        (\<exists>s. s \<noteq> [] \<and>
           list_documents parse (qry\<lparr>q_p := Some s\<rparr>)
             (snd (post_document (Some f) body now stamp documents)) = Inl TypeError)"
  proof
    assume a: "description_f body = None"
    let ?s = "replicate (Suc (length (the (title ?d)))) CHR ''a''"
    have ne: "?s \<noteq> []" by simp
    have long: "\<not> includes_str (toLowerCase (the (title ?d))) (toLowerCase ?s)"
      using includes_str_length [of "toLowerCase (the (title ?d))" "toLowerCase ?s"]
      by (auto simp: length_toLowerCase)
    have "\<exists>e. matches_q (toLowerCase ?s) ?d = Inl e"
      unfolding matches_q_throws using a long by (simp add: stored)
    then have "list_documents parse (qry\<lparr>q_p := Some ?s\<rparr>)
             (snd (post_document (Some f) body now stamp documents)) = Inl TypeError"
      using ne by (rule list_documents_new_throws [rotated])
    with ne show "\<exists>s. s \<noteq> [] \<and>
           list_documents parse (qry\<lparr>q_p := Some s\<rparr>)
             (snd (post_document (Some f) body now stamp documents)) = Inl TypeError"
      by blast
  qed
  show ?thesis
    using stored no_title no_description free_text_total [of parse documents]
    by blast
qed

text \<open>
  C10 at work: document A is uploaded without a title into the empty repository; the
  search for \<^verbatim>\<open>budget\<close> fails.
\<close>

theorem free_text_filter_throws_witness:
  "title_f (formA\<lparr>title_f := None\<rparr>) = None \<and> ''budget'' \<noteq> []
   \<and> list_documents (\<lambda>s. None) (no_criteria\<lparr>q_p := Some ''budget''\<rparr>)
        (snd (post_document (Some fileA) (formA\<lparr>title_f := None\<rparr>) 1700000000000 stampA []))
      = Inl TypeError"
proof -
  have a: "title_f (formA\<lparr>title_f := None\<rparr>) = None \<and> ''budget'' \<noteq> []" by simp
  from free_text_filter_throws [where body = "formA\<lparr>title_f := None\<rparr>" and s = "''budget''"
      and parse = "\<lambda>s. None" and qry = no_criteria and f = fileA and now = 1700000000000
      and stamp = stampA and documents = "[]"] a
  show ?thesis by blast
qed

end
